theory Spec2Isabelle
  imports Main "HOL-Library.AList"
begin

section \<open>Python strings\<close>

text \<open>
  A Python \<open>str\<close> is modelled as a \<open>string\<close>, each \<open>char\<close> standing for one code point
  below 256. \<open>str.strip()\<close> without argument removes leading and trailing whitespace;
  below 256 the whitespace code points are TAB, LF, VT, FF, CR, FS, GS, RS, US, SPACE,
  NEL (133) and NBSP (160). \<open>str.lower()\<close> maps A-Z and the upper-case letters of
  Latin-1 (192-222 apart from the multiplication sign 215) 32 places up.
\<close>

definition isspace :: "char \<Rightarrow> bool" where
  "isspace c = (of_char c \<in> {9, 10, 11, 12, 13, 28, 29, 30, 31, 32, 133, 160 :: nat})"

definition strip :: "string \<Rightarrow> string" where
  "strip s = rev (dropWhile isspace (rev (dropWhile isspace s)))"

definition isupper :: "char \<Rightarrow> bool" where
  "isupper c = (let n = of_char c :: nat
                in (65 \<le> n \<and> n \<le> 90) \<or> (192 \<le> n \<and> n \<le> 222 \<and> n \<noteq> 215))"

definition lower_char :: "char \<Rightarrow> char" where
  "lower_char c = (if isupper c then char_of (of_char c + 32 :: nat) else c)"

definition lower :: "string \<Rightarrow> string" where
  "lower s = map lower_char s"

section \<open>Data of \<open>parse_product_page\<close>\<close>

text \<open>
  The configuration has the structure the docstring of \<open>parse_product_page\<close> gives:
  \<open>config['data_points']\<close> is a dict from a data key to a dict with the optional keys
  \<open>'selector'\<close> (a string), \<open>'type'\<close> (a string) and \<open>'multi'\<close> (a boolean). An absent key
  is \<open>None\<close>, which is what \<open>dict.get\<close> returns for it; the fields are named after the
  reads \<open>selector_config.get('selector')\<close>, \<open>.get('type')\<close>, \<open>.get('multi')\<close>. A dict is an
  association list in insertion order, the order in which \<open>items()\<close> yields it. Values
  of other Python types, such as a \<open>'type'\<close> that is not a string, on which \<open>.lower()\<close> of
  line 36 would raise, are outside the documented structure and outside the model.
\<close>

record selector_config =
  get_selector :: "string option"
  get_type :: "string option"
  get_multi :: "bool option"

record config =
  get_data_points :: "(string \<times> selector_config) list option"

text \<open>
  The values stored in \<open>results\<close>: \<open>None\<close>, a string, or a list of strings.
\<close>

datatype pyval = PyNone | PyStr string | PyList "string list"

text \<open>
  The library \<open>lxml\<close> is a parameter of the model. \<open>html.fromstring\<close> returns a tree or raises.
  \<open>tree.cssselect\<close> returns a list or raises. \<open>tree.xpath\<close> returns what the expression
  denotes, or raises: a list for a node set, a \<open>str\<close> for a string expression such as
  \<open>string(//h1)\<close>, a float for a number such as \<open>count(//li)\<close>, a bool for a boolean.
  An exception is a value of \<open>exn\<close>, an instance of Python's \<open>Exception\<close> with the name of its
  class. Of an entry of a list the code observes only whether it is a \<open>str\<close>
  (\<open>Str\<close>), else whether it has \<open>text_content\<close> (\<open>Element\<close>, with the string that
  \<open>text_content()\<close> returns), else neither (\<open>Other\<close>). Of a float the code observes nothing
  but that it cannot be iterated, so \<open>Number\<close> carries no value.
\<close>

datatype exn = Exception string

datatype match = Str string | Element string | Other

datatype selected = Items "match list" | Text string | Number | Boolean bool

record 't lxml =
  fromstring :: "string \<Rightarrow> exn + 't"
  cssselect :: "'t \<Rightarrow> string \<Rightarrow> exn + match list"
  xpath :: "'t \<Rightarrow> string \<Rightarrow> exn + selected"

text \<open>
  The state of the loop over the data points: the dict \<open>results\<close>, and the log of the calls
  made to the query engine, \<open>tree.cssselect(selector)\<close> and \<open>tree.xpath(selector)\<close>, in the
  order in which they are made.
\<close>

datatype query = CssSelect string | XPath string

record state =
  results :: "(string \<times> pyval) list"
  queries :: "query list"

section \<open>\<open>parse_product_page\<close>\<close>

text \<open>
  Line 59, \<open>for el in extracted_elements\<close>: a list yields its entries, a \<open>str\<close> its
  characters, each a \<open>str\<close> of length one; a float or a bool is not iterable and the
  statement raises \<open>TypeError\<close>.
\<close>

fun iter_elements :: "selected \<Rightarrow> exn + match list" where
  "iter_elements (Items els) = Inr els"
| "iter_elements (Text s) = Inr (map (\<lambda>ch. Str [ch]) s)"
| "iter_elements Number = Inl (Exception ''TypeError'')"
| "iter_elements (Boolean b) = Inl (Exception ''TypeError'')"

text \<open>Lines 60-65: what one element of \<open>extracted_elements\<close> does to \<open>processed_data\<close>.\<close>

fun append_match :: "match \<Rightarrow> string list \<Rightarrow> string list" where
  "append_match (Str el) processed_data = processed_data @ [strip el]"
| "append_match (Element text_content) processed_data =
     (let text = strip text_content
      in if text \<noteq> [] then processed_data @ [text] else processed_data)"
| "append_match Other processed_data = processed_data"

text \<open>Lines 58-65: the loop over the elements, from the empty \<open>processed_data\<close>.\<close>

definition process_elements :: "match list \<Rightarrow> string list" where
  "process_elements els = fold append_match els []"

text \<open>\<open>[] if multi else None\<close>, the value of lines 40, 50 and 55.\<close>

definition empty_form :: "bool \<Rightarrow> pyval" where
  "empty_form multi = (if multi then PyList [] else PyNone)"

text \<open>\<open>results[data_key] = v\<close>: an existing key keeps its place, a new one goes last.\<close>

definition assign :: "string \<Rightarrow> pyval \<Rightarrow> state \<Rightarrow> state" where
  "assign data_key v st = st\<lparr>results := AList.update data_key v (results st)\<rparr>"

definition called :: "query \<Rightarrow> state \<Rightarrow> state" where
  "called q st = st\<lparr>queries := queries st @ [q]\<rparr>"

text \<open>
  Lines 52-70, after the call of the query engine has returned or raised. An exception of
  the call is caught by \<open>except Exception\<close> (lines 52-56). Lines 58-70 are outside the
  \<open>try\<close>: the \<open>TypeError\<close> of line 59 is not caught and ends the loop over the data points.
\<close>

definition after_query :: "string \<Rightarrow> bool \<Rightarrow> exn + selected \<Rightarrow> state \<Rightarrow> exn + state" where
  "after_query data_key multi outcome st =
     (case outcome of
        Inl e \<Rightarrow> Inr (assign data_key (empty_form multi) st)
      | Inr extracted_elements \<Rightarrow>
          (case iter_elements extracted_elements of
             Inl e \<Rightarrow> Inl e
           | Inr els \<Rightarrow>
               (let processed_data = process_elements els
                in if multi then Inr (assign data_key (PyList processed_data) st)
                   else Inr (assign data_key
                          (case processed_data of [] \<Rightarrow> PyNone | first # rest \<Rightarrow> PyStr first)
                          st))))"

text \<open>
  Line 36, \<open>selector_config.get('type', 'css').lower()\<close>, and line 37,
  \<open>selector_config.get('multi', False)\<close>.
\<close>

definition read_type :: "selector_config \<Rightarrow> string" where
  "read_type selector_config =
     lower (case get_type selector_config of None \<Rightarrow> ''css'' | Some t \<Rightarrow> t)"

definition read_multi :: "selector_config \<Rightarrow> bool" where
  "read_multi selector_config =
     (case get_multi selector_config of None \<Rightarrow> False | Some b \<Rightarrow> b)"

text \<open>
  Lines 35-70: the body of the loop over \<open>config['data_points'].items()\<close>. The list that
  \<open>tree.cssselect\<close> returns is iterated as any list is.
\<close>

definition loop_body ::
  "'t lxml \<Rightarrow> 't \<Rightarrow> string \<times> selector_config \<Rightarrow> state \<Rightarrow> exn + state" where
  "loop_body L tree item st =
     (let data_key = fst item;
          selector_config = snd item;
          selector_type = read_type selector_config;
          multi = read_multi selector_config
      in case get_selector selector_config of
           None \<Rightarrow> Inr (assign data_key (empty_form multi) st)
         | Some sel \<Rightarrow>
             if sel = [] then Inr (assign data_key (empty_form multi) st)
             else if selector_type = ''css'' then
               after_query data_key multi (map_sum id Items (cssselect L tree sel))
                 (called (CssSelect sel) st)
             else if selector_type = ''xpath'' then
               after_query data_key multi (xpath L tree sel) (called (XPath sel) st)
             else Inr (assign data_key (empty_form multi) st))"

text \<open>
  Lines 34-70: the loop over the data points. An exception that leaves the body leaves
  the loop, and the data points after it are not reached.
\<close>

fun run_loop ::
  "'t lxml \<Rightarrow> 't \<Rightarrow> (string \<times> selector_config) list \<Rightarrow> state \<Rightarrow> exn + state" where
  "run_loop L tree [] st = Inr st"
| "run_loop L tree (item # items) st =
     (case loop_body L tree item st of
        Inl e \<Rightarrow> Inl e
      | Inr st' \<Rightarrow> run_loop L tree items st')"

text \<open>Lines 32-72 on a parsed tree: the loop, from the empty \<open>results\<close>.\<close>

definition extract_fields ::
  "'t lxml \<Rightarrow> 't \<Rightarrow> (string \<times> selector_config) list \<Rightarrow> exn + state" where
  "extract_fields L tree items = run_loop L tree items \<lparr>results = [], queries = []\<rparr>"

text \<open>
  The whole function. Line 31 is outside every \<open>try\<close>: an exception of \<open>html.fromstring\<close>
  leaves the function, as one of the loop does. \<open>config.get('data_points', {})\<close> is the
  empty dict when the key is absent.
\<close>

definition parse_product_page ::
  "'t lxml \<Rightarrow> string \<Rightarrow> config \<Rightarrow> exn + (string \<times> pyval) list" where
  "parse_product_page L html_content config =
     (case fromstring L html_content of
        Inl e \<Rightarrow> Inl e
      | Inr tree \<Rightarrow>
          (case extract_fields L tree
                  (case get_data_points config of None \<Rightarrow> [] | Some items \<Rightarrow> items) of
             Inl e \<Rightarrow> Inl e
           | Inr st \<Rightarrow> Inr (results st)))"

section \<open>Notions for the statements\<close>

text \<open>
  Each path through the body of the loop either raises or assigns \<open>results[data_key]\<close>
  once. The exception raised for a \<open>selector_config\<close>, if any, the value assigned
  otherwise, and the calls of the query engine made on the way, are read off \<open>loop_body\<close>
  itself, run on the empty state.
\<close>

definition field_error :: "'t lxml \<Rightarrow> 't \<Rightarrow> selector_config \<Rightarrow> exn option" where
  "field_error L tree c =
     (case loop_body L tree ([], c) \<lparr>results = [], queries = []\<rparr> of
        Inl e \<Rightarrow> Some e | Inr st \<Rightarrow> None)"

definition field_value :: "'t lxml \<Rightarrow> 't \<Rightarrow> selector_config \<Rightarrow> pyval" where
  "field_value L tree c =
     (case loop_body L tree ([], c) \<lparr>results = [], queries = []\<rparr> of
        Inl e \<Rightarrow> PyNone
      | Inr st \<Rightarrow> (case results st of [] \<Rightarrow> PyNone | kv # rest \<Rightarrow> snd kv))"

definition field_queries :: "'t lxml \<Rightarrow> 't \<Rightarrow> selector_config \<Rightarrow> query list" where
  "field_queries L tree c =
     (case loop_body L tree ([], c) \<lparr>results = [], queries = []\<rparr> of
        Inl e \<Rightarrow> [] | Inr st \<Rightarrow> queries st)"

text \<open>The exception of the first data point that raises, if one does.\<close>

fun first_error ::
  "'t lxml \<Rightarrow> 't \<Rightarrow> (string \<times> selector_config) list \<Rightarrow> exn option" where
  "first_error L tree [] = None"
| "first_error L tree (item # items) =
     (case field_error L tree (snd item) of
        Some e \<Rightarrow> Some e
      | None \<Rightarrow> first_error L tree items)"

text \<open>
  What the loop of lines 59-65 does with one element, said apart from the loop: whether
  the element leaves no entry, and the entry it leaves otherwise.
\<close>

fun dropped :: "match \<Rightarrow> bool" where
  "dropped (Str s) = False"
| "dropped (Element t) = (strip t = [])"
| "dropped Other = True"

fun trimmed :: "match \<Rightarrow> string" where
  "trimmed (Str s) = strip s"
| "trimmed (Element t) = strip t"
| "trimmed Other = []"

text \<open>
  A stand-in for \<open>lxml\<close> on one page, to run the model on concrete inputs. The tree is the
  text of the page. As \<open>lxml\<close> does, \<open>fromstring\<close> raises \<open>ParserError\<close> on the empty
  document, \<open>cssselect\<close> raises \<open>ExpressionError\<close> on a pseudo-element, and \<open>xpath\<close> raises
  \<open>XPathEvalError\<close> on an expression it cannot parse, returns attribute values as strings,
  the namespace axis as tuples, a count as a float and a string value as a string.
\<close>

definition demo_lxml :: "string lxml" where
  "demo_lxml =
     \<lparr>fromstring = (\<lambda>s. if s = [] then Inl (Exception ''ParserError'') else Inr s),
      cssselect = (\<lambda>tree sel.
        if sel = ''h1'' then Inr [Element '' Widget '']
        else if sel = ''li'' then Inr [Element ''A'', Element [], Element '' B '', Element ''A'']
        else if sel = ''img::attr(src)'' then Inl (Exception ''ExpressionError'')
        else Inr []),
      xpath = (\<lambda>tree sel.
        if sel = ''//img/@src'' then Inr (Items [Str ''  /a.png '', Str '' ''])
        else if sel = ''//namespace::*'' then Inr (Items [Other])
        else if sel = ''count(//li)'' then Inr Number
        else if sel = ''string(//h1)'' then Inr (Text '' Widget '')
        else if sel = ''//['' then Inl (Exception ''XPathEvalError'')
        else Inr (Items []))\<rparr>"

definition demo_page :: string where
  "demo_page = ''<h1> Widget </h1>''"

text \<open>
  A configuration for that page: a title read by a CSS selector with the defaults, an image
  whose CSS selector asks for an attribute, and the same attribute read by XPath.
\<close>

definition demo_items :: "(string \<times> selector_config) list" where
  "demo_items =
     [(''title'', \<lparr>get_selector = Some ''h1'', get_type = None, get_multi = None\<rparr>),
      (''image'', \<lparr>get_selector = Some ''img::attr(src)'', get_type = Some ''css'',
                   get_multi = Some True\<rparr>),
      (''src'', \<lparr>get_selector = Some ''//img/@src'', get_type = Some ''XPath'',
                 get_multi = Some True\<rparr>)]"

text \<open>
  More configurations: a list read once for its first entry, once in full and once by
  a query without matches; two data points without a selector; and a title beside a
  count of list items, with a selector that raises between them.
\<close>

definition demo_list :: "(string \<times> selector_config) list" where
  "demo_list =
     [(''first'', \<lparr>get_selector = Some ''li'', get_type = Some ''css'',
                   get_multi = Some False\<rparr>),
      (''all'', \<lparr>get_selector = Some ''li'', get_type = Some ''CSS'',
                 get_multi = Some True\<rparr>),
      (''none'', \<lparr>get_selector = Some ''//p'', get_type = Some ''xpath'',
                  get_multi = None\<rparr>)]"

definition demo_blank :: "(string \<times> selector_config) list" where
  "demo_blank =
     [(''absent'', \<lparr>get_selector = None, get_type = Some ''css'', get_multi = Some True\<rparr>),
      (''empty'', \<lparr>get_selector = Some [], get_type = Some ''xpath'', get_multi = None\<rparr>)]"

definition demo_count :: "(string \<times> selector_config) list" where
  "demo_count =
     [(''title'', \<lparr>get_selector = Some ''h1'', get_type = None, get_multi = None\<rparr>),
      (''bad'', \<lparr>get_selector = Some ''//['', get_type = Some ''xpath'', get_multi = None\<rparr>),
      (''n'', \<lparr>get_selector = Some ''count(//li)'', get_type = Some ''xpath'',
               get_multi = None\<rparr>)]"

section \<open>Stripping and lower case\<close>

text \<open>
  \<open>strip\<close> cuts a string down to a middle part between two runs of whitespace, and a
  non-empty result neither begins nor ends with whitespace. \<open>lower\<close> changes nothing in
  a string that is in lower case already.
\<close>

lemma rev_dropWhile_split:
  "xs = rev (dropWhile P (rev xs)) @ rev (takeWhile P (rev xs))"
proof -
  have "rev (dropWhile P (rev xs)) @ rev (takeWhile P (rev xs)) =
        rev (takeWhile P (rev xs) @ dropWhile P (rev xs))"
    by (simp only: rev_append)
  also have "\<dots> = xs" by simp
  finally show ?thesis by simp
qed

lemma strip_sandwich:
  "\<exists>l r. s = l @ strip s @ r \<and> (\<forall>c \<in> set l. isspace c) \<and> (\<forall>c \<in> set r. isspace c)"
proof -
  define d where "d = dropWhile isspace s"
  define r where "r = rev (takeWhile isspace (rev d))"
  define l where "l = takeWhile isspace s"
  have d: "d = strip s @ r"
    unfolding strip_def r_def d_def by (rule rev_dropWhile_split)
  have "s = l @ d"
    unfolding l_def d_def by simp
  with d have s: "s = l @ strip s @ r"
    by simp
  have l: "\<forall>c \<in> set l. isspace c"
    unfolding l_def using set_takeWhileD by fastforce
  have r: "\<forall>c \<in> set r. isspace c"
    unfolding r_def set_rev using set_takeWhileD by fastforce
  from s l r show ?thesis by blast
qed

lemma strip_ends:
  assumes "strip s \<noteq> []"
  shows "\<not> isspace (hd (strip s)) \<and> \<not> isspace (last (strip s))"
proof -
  define d where "d = dropWhile isspace s"
  define e where "e = dropWhile isspace (rev d)"
  have strip: "strip s = rev e"
    by (simp add: strip_def e_def d_def)
  then have e: "e \<noteq> []" using assms by simp
  then have "\<not> isspace (hd e)"
    unfolding e_def by (rule hd_dropWhile)
  then have last: "\<not> isspace (last (strip s))"
    using e by (simp add: strip last_rev)
  have dsplit: "d = strip s @ rev (takeWhile isspace (rev d))"
    unfolding strip e_def by (rule rev_dropWhile_split)
  then have "d \<noteq> []" using assms by (cases d) simp_all
  then have "\<not> isspace (hd d)"
    unfolding d_def by (rule hd_dropWhile)
  moreover have "hd d = hd (strip s)"
    using assms by (subst dsplit) simp
  ultimately show ?thesis using last by simp
qed

lemma lower_char_idem: "lower_char (lower_char c) = lower_char c"
proof (cases "isupper c")
  case False
  then show ?thesis by (simp add: lower_char_def)
next
  case True
  define n :: nat where "n = of_char c"
  have range: "(65 \<le> n \<and> n \<le> 90) \<or> (192 \<le> n \<and> n \<le> 222)"
    using True unfolding isupper_def Let_def n_def by blast
  have "of_char (char_of (n + 32) :: char) = (n + 32) mod 256"
    by (rule of_char_of)
  also have "\<dots> = n + 32"
    using range by (intro mod_less) arith
  finally have m: "(of_char (char_of (n + 32) :: char) :: nat) = n + 32" .
  have "\<not> isupper (char_of (n + 32))"
    unfolding isupper_def Let_def m using range by arith
  then show ?thesis
    using True by (simp add: lower_char_def n_def)
qed

lemma lower_idem: "lower (lower s) = lower s"
  by (simp add: lower_def lower_char_idem)

lemma read_type_lower:
  "read_type (c\<lparr>get_type := Some (lower t)\<rparr>) = read_type (c\<lparr>get_type := Some t\<rparr>)"
  by (simp add: read_type_def lower_idem)

section \<open>The loop, field by field\<close>

lemma loop_body_eq:
  "loop_body L tree (k, c) st =
     (case field_error L tree c of
        Some e \<Rightarrow> Inl e
      | None \<Rightarrow>
          Inr \<lparr>results = AList.update k (field_value L tree c) (results st),
               queries = queries st @ field_queries L tree c\<rparr>)"
  by (simp add: loop_body_def field_error_def field_value_def field_queries_def after_query_def
      assign_def called_def Let_def split: option.splits sum.splits list.splits)

lemma run_loop_eq:
  "run_loop L tree items st =
     (case first_error L tree items of
        Some e \<Rightarrow> Inl e
      | None \<Rightarrow>
          Inr \<lparr>results =
                 fold (\<lambda>item. AList.update (fst item) (field_value L tree (snd item))) items
                   (results st),
               queries =
                 queries st @ concat (map (\<lambda>item. field_queries L tree (snd item)) items)\<rparr>)"
proof (induction items arbitrary: st)
  case Nil
  show ?case by simp
next
  case (Cons item items)
  obtain k c where item: "item = (k, c)" by (cases item)
  show ?case
    by (simp add: item loop_body_eq Cons.IH split: option.splits)
qed

lemma extract_fields_eq:
  "extract_fields L tree items =
     (case first_error L tree items of
        Some e \<Rightarrow> Inl e
      | None \<Rightarrow>
          Inr \<lparr>results =
                 fold (\<lambda>item. AList.update (fst item) (field_value L tree (snd item))) items [],
               queries = concat (map (\<lambda>item. field_queries L tree (snd item)) items)\<rparr>)"
  by (simp add: extract_fields_def run_loop_eq split: option.splits)

lemma extract_fields_results:
  "extract_fields L tree items = Inr st \<Longrightarrow>
   results st =
     fold (\<lambda>item. AList.update (fst item) (field_value L tree (snd item))) items []"
  by (auto simp: extract_fields_eq split: option.splits)

lemma fold_update_keys:
  "fst ` set (fold (\<lambda>item. AList.update (fst item) (f (snd item))) items al) =
   fst ` set items \<union> fst ` set al"
  by (induction items arbitrary: al) (auto simp: dom_update)

lemma fold_update_distinct:
  "distinct (map fst al) \<Longrightarrow>
   distinct (map fst (fold (\<lambda>item. AList.update (fst item) (f (snd item))) items al))"
  by (induction items arbitrary: al) (simp_all add: distinct_update)

lemma fold_update_map_of:
  "map_of (fold (\<lambda>item. AList.update (fst item) (f (snd item))) items al) k =
     (case map_of (rev items) k of
        None \<Rightarrow> map_of al k
      | Some c \<Rightarrow> Some (f c))"
  by (induction items arbitrary: al)
     (auto simp: update_conv' map_add_def split: option.splits)

lemma fold_update_delete:
  "AList.delete k (fold (\<lambda>item. AList.update (fst item) (f (snd item))) items al) =
   fold (\<lambda>item. AList.update (fst item) (f (snd item))) (AList.delete k items) (AList.delete k al)"
  by (induction items arbitrary: al)
     (auto simp: delete_update_same delete_update)

lemma map_of_rev_distinct:
  "distinct (map fst items) \<Longrightarrow> map_of (rev items) = map_of items"
proof -
  assume d: "distinct (map fst items)"
  then have "distinct (map fst (rev items))"
    by (simp add: rev_map [symmetric])
  then show ?thesis
    using d by (simp add: map_of_inject_set)
qed

lemma update_fresh:
  "k \<notin> fst ` set al \<Longrightarrow> AList.update k v al = al @ [(k, v)]"
  by (induction al) auto

lemma fold_update_fresh:
  "distinct (map fst items) \<Longrightarrow> fst ` set items \<inter> fst ` set al = {} \<Longrightarrow>
   fold (\<lambda>item. AList.update (fst item) (f (snd item))) items al =
   al @ map (\<lambda>item. (fst item, f (snd item))) items"
proof (induction items arbitrary: al)
  case Nil
  show ?case by simp
next
  case (Cons item items)
  have fresh: "fst item \<notin> fst ` set al"
    using Cons.prems(2) by auto
  have "fst ` set items \<inter> fst ` set (al @ [(fst item, f (snd item))]) = {}"
    using Cons.prems by auto
  then show ?case
    using Cons.IH [of "al @ [(fst item, f (snd item))]"] Cons.prems(1) fresh
    by (simp add: update_fresh)
qed

lemma extract_fields_lookup:
  assumes "extract_fields L tree items = Inr st"
    and "distinct (map fst items)" and "(k, c) \<in> set items"
  shows "map_of (results st) k = Some (field_value L tree c)"
proof -
  have "map_of (rev items) k = Some c"
    using assms(2,3) by (simp add: map_of_rev_distinct)
  then show ?thesis
    by (simp add: extract_fields_results [OF assms(1)] fold_update_map_of)
qed

lemma extract_fields_keys:
  assumes "extract_fields L tree items = Inr st"
  shows "fst ` set (results st) = fst ` set items" and "distinct (map fst (results st))"
  by (simp_all add: extract_fields_results [OF assms] fold_update_keys fold_update_distinct)

lemma first_error_None_iff:
  "first_error L tree items = None \<longleftrightarrow>
   (\<forall>item \<in> set items. field_error L tree (snd item) = None)"
  by (induction items) (auto split: option.splits)

lemma first_error_delete:
  assumes "\<forall>item \<in> set items. fst item = k \<longrightarrow> field_error L tree (snd item) = None"
  shows "first_error L tree (AList.delete k items) = first_error L tree items"
  using assms
  by (induction items) (auto split: option.splits)

lemma fold_append_match:
  "fold append_match els acc = acc @ concat (map (\<lambda>el. append_match el []) els)"
proof (induction els arbitrary: acc)
  case Nil
  show ?case by simp
next
  case (Cons el els)
  have "append_match el acc = acc @ append_match el []"
    by (cases el) (simp_all add: Let_def)
  with Cons show ?case by simp
qed

lemma process_elements_append:
  "process_elements (xs @ ys) = process_elements xs @ process_elements ys"
  unfolding process_elements_def
  by (simp add: fold_append_match)

lemma field_no_selector:
  assumes "get_selector c = None \<or> get_selector c = Some []"
  shows "field_error L tree c = None" and "field_value L tree c = empty_form (read_multi c)"
    and "field_queries L tree c = []"
  using assms
  by (auto simp: field_error_def field_value_def field_queries_def loop_body_def assign_def
      Let_def)

lemma field_unsupported:
  assumes "read_type c \<noteq> ''css''" and "read_type c \<noteq> ''xpath''"
  shows "field_error L tree c = None" and "field_value L tree c = empty_form (read_multi c)"
    and "field_queries L tree c = []"
  using assms
  by (auto simp: field_error_def field_value_def field_queries_def loop_body_def assign_def
      Let_def split: option.splits)

lemma field_raised:
  assumes "get_selector c = Some sel" and "sel \<noteq> []"
    and "(read_type c = ''css'' \<and> cssselect L tree sel = Inl e) \<or>
         (read_type c = ''xpath'' \<and> xpath L tree sel = Inl e)"
  shows "field_error L tree c = None" and "field_value L tree c = empty_form (read_multi c)"
    and "field_queries L tree c =
           [if read_type c = ''css'' then CssSelect sel else XPath sel]"
  using assms
  by (auto simp: field_error_def field_value_def field_queries_def loop_body_def
      after_query_def assign_def called_def Let_def)

lemma field_selected:
  assumes "get_selector c = Some sel" and "sel \<noteq> []"
    and "(read_type c = ''css'' \<and> cssselect L tree sel = Inr els) \<or>
         (read_type c = ''xpath'' \<and> (\<exists>x. xpath L tree sel = Inr x \<and> iter_elements x = Inr els))"
  shows "field_error L tree c = None"
    and "field_value L tree c =
           (if read_multi c then PyList (process_elements els)
            else (case process_elements els of [] \<Rightarrow> PyNone | s # rest \<Rightarrow> PyStr s))"
    and "field_queries L tree c =
           [if read_type c = ''css'' then CssSelect sel else XPath sel]"
  using assms
  by (auto simp: field_error_def field_value_def field_queries_def loop_body_def
      after_query_def assign_def called_def Let_def)

lemma field_not_iterable:
  assumes "get_selector c = Some sel" and "sel \<noteq> []" and "read_type c = ''xpath''"
    and "xpath L tree sel = Inr x" and "iter_elements x = Inl e"
  shows "field_error L tree c = Some e"
  using assms
  by (auto simp: field_error_def loop_body_def after_query_def Let_def)

section \<open>Evaluation on literals\<close>

lemma strip_demo:
  "strip ''  /a.png '' = ''/a.png''" "strip '' '' = []" "strip '' Widget '' = ''Widget''"
  "strip '' B '' = ''B''" "strip ''A'' = ''A''" "strip [] = []"
  by (simp_all add: strip_def isspace_def)

lemma lower_demo:
  "lower ''css'' = ''css''" "lower ''xpath'' = ''xpath''" "lower ''XPath'' = ''xpath''"
  "lower ''CSS'' = ''css''" "lower ''Css'' = ''css''" "lower ''XPATH'' = ''xpath''"
  "lower ''json'' = ''json''"
  by code_simp+

lemmas demo_defs =
  demo_lxml_def demo_page_def demo_items_def read_type_def read_multi_def lower_demo strip_demo
  parse_product_page_def extract_fields_def loop_body_def after_query_def assign_def called_def
  process_elements_def empty_form_def Let_def demo_list_def demo_blank_def demo_count_def

section \<open>The claims\<close>

text \<open>
  C1, per-field fault isolation. Let the page parse to a tree and let the selector of one
  data point \<open>k\<close> raise in the query engine it is dispatched to. The body of the loop
  catches the exception: it returns, with the empty form (\<open>[]\<close> if \<open>multi\<close>, else \<open>None\<close>)
  assigned to \<open>k\<close>. The call on the configuration with \<open>k\<close> deleted has the outcome of the
  call with \<open>k\<close>: the same result with the entry of \<open>k\<close> deleted, so every other data point
  is extracted as it is without \<open>k\<close>; or the same exception, which is then not the one of
  \<open>k\<close>. Whenever the call returns, \<open>k\<close> holds its empty form. The keys of
  \<open>config['data_points']\<close> are distinct, as those of a dict are.
\<close>

theorem fault_isolation:
  assumes "fromstring L html_content = Inr tree"
    and "get_data_points config = Some items"
    and "distinct (map fst items)"
    and "(k, c) \<in> set items"
    and "get_selector c = Some sel" and "sel \<noteq> []"
    and "(read_type c = ''css'' \<and> cssselect L tree sel = Inl e) \<or>
         (read_type c = ''xpath'' \<and> xpath L tree sel = Inl e)"
  shows "loop_body L tree (k, c) st =
           Inr (st\<lparr>results := AList.update k (empty_form (read_multi c)) (results st),
                  queries := queries st @
                    [if read_type c = ''css'' then CssSelect sel else XPath sel]\<rparr>) \<and>
         parse_product_page L html_content
           (config\<lparr>get_data_points := Some (AList.delete k items)\<rparr>) =
           (case parse_product_page L html_content config of
              Inl e' \<Rightarrow> Inl e'
            | Inr res \<Rightarrow> Inr (AList.delete k res)) \<and>
         (\<forall>res. parse_product_page L html_content config = Inr res \<longrightarrow>
                map_of res k = Some (empty_form (read_multi c)))"
proof -
  note field = field_raised [OF assms(5-7)]
  have body: "loop_body L tree (k, c) st =
           Inr (st\<lparr>results := AList.update k (empty_form (read_multi c)) (results st),
                  queries := queries st @
                    [if read_type c = ''css'' then CssSelect sel else XPath sel]\<rparr>)"
    by (simp add: loop_body_eq field)
  have "c' = c" if "(k, c') \<in> set items" for c'
    using assms(3,4) that by (metis eq_key_imp_eq_value)
  then have "\<forall>item \<in> set items. fst item = k \<longrightarrow> field_error L tree (snd item) = None"
    using field(1) by auto
  then have errs: "first_error L tree (AList.delete k items) = first_error L tree items"
    by (rule first_error_delete)
  have without: "parse_product_page L html_content
           (config\<lparr>get_data_points := Some (AList.delete k items)\<rparr>) =
           (case parse_product_page L html_content config of
              Inl e' \<Rightarrow> Inl e'
            | Inr res \<Rightarrow> Inr (AList.delete k res))"
    using assms(1,2)
    by (simp add: parse_product_page_def extract_fields_eq errs fold_update_delete
        split: option.splits)
  have at_k: "map_of res k = Some (empty_form (read_multi c))"
    if "parse_product_page L html_content config = Inr res" for res
  proof -
    from that obtain st' where run: "extract_fields L tree items = Inr st'"
      and res: "res = results st'"
      using assms(1,2) by (auto simp: parse_product_page_def split: sum.splits)
    show ?thesis
      using extract_fields_lookup [OF run assms(3,4)] field(2) res by simp
  qed
  show ?thesis
    using body without at_k by blast
qed

theorem fault_isolation_witness:
  "parse_product_page demo_lxml demo_page \<lparr>get_data_points = Some demo_items\<rparr> =
     Inr [(''title'', PyStr ''Widget''), (''image'', PyList []),
          (''src'', PyList [''/a.png'', []])] \<and>
   parse_product_page demo_lxml demo_page
     \<lparr>get_data_points = Some (AList.delete ''image'' demo_items)\<rparr> =
     Inr [(''title'', PyStr ''Widget''), (''src'', PyList [''/a.png'', []])] \<and>
   parse_product_page demo_lxml demo_page \<lparr>get_data_points = Some demo_count\<rparr> =
     Inl (Exception ''TypeError'') \<and>
   parse_product_page demo_lxml demo_page
     \<lparr>get_data_points = Some (AList.delete ''bad'' demo_count)\<rparr> =
     Inl (Exception ''TypeError'')"
  using fault_isolation [of demo_lxml demo_page demo_page
      "\<lparr>get_data_points = Some demo_items\<rparr>" demo_items "''image''"
      "\<lparr>get_selector = Some ''img::attr(src)'', get_type = Some ''css'', get_multi = Some True\<rparr>"
      "''img::attr(src)''" "Exception ''ExpressionError''" "\<lparr>results = [], queries = []\<rparr>"]
    fault_isolation [of demo_lxml demo_page demo_page
      "\<lparr>get_data_points = Some demo_count\<rparr>" demo_count "''bad''"
      "\<lparr>get_selector = Some ''//['', get_type = Some ''xpath'', get_multi = None\<rparr>"
      "''//[''" "Exception ''XPathEvalError''" "\<lparr>results = [], queries = []\<rparr>"]
  by (simp add: demo_defs)

text \<open>
  C2, no raise on any input string. Line 31 is not guarded: on the empty document
  \<open>html.fromstring\<close> raises \<open>ParserError\<close>, and \<open>parse_product_page\<close> raises it to its
  caller instead of returning every configured field in its empty form.
\<close>

theorem parse_raises_on_empty_document:
  "parse_product_page demo_lxml [] \<lparr>get_data_points = Some demo_items\<rparr> =
     Inl (Exception ''ParserError'')"
  by (simp add: demo_defs)

text \<open>
  C3, totality of the result mapping. Line 59 is not guarded: for a data point whose XPath
  expression is a count, \<open>tree.xpath\<close> returns a float, the \<open>for\<close> statement raises
  \<open>TypeError\<close>, and the call returns no mapping at all, neither on the tree nor on the
  page, where the mapping should have the key \<open>n\<close>.
\<close>

theorem count_selector_aborts:
  "extract_fields demo_lxml demo_page
     [(''n'', \<lparr>get_selector = Some ''count(//li)'', get_type = Some ''xpath'',
               get_multi = None\<rparr>)] =
     Inl (Exception ''TypeError'') \<and>
   parse_product_page demo_lxml demo_page
     \<lparr>get_data_points =
        Some [(''n'', \<lparr>get_selector = Some ''count(//li)'', get_type = Some ''xpath'',
                       get_multi = None\<rparr>)]\<rparr> =
     Inl (Exception ''TypeError'')"
  by (simp add: demo_defs)

text \<open>
  C4, cardinality resolution. When the selector of a data point is evaluated and what the
  query engine returns iterates as \<open>els\<close>, whose normalisation is \<open>process_elements els\<close>,
  the body of the loop assigns the whole normalised list if \<open>multi\<close>, and else its first
  entry, or \<open>None\<close> when it is empty; the entries after the first are not looked at. That
  value is what the data point holds whenever the loop returns.
\<close>

theorem cardinality_resolution:
  assumes "distinct (map fst items)" and "(k, c) \<in> set items"
    and "get_selector c = Some sel" and "sel \<noteq> []"
    and "(read_type c = ''css'' \<and> cssselect L tree sel = Inr els) \<or>
         (read_type c = ''xpath'' \<and>
            (\<exists>x. xpath L tree sel = Inr x \<and> iter_elements x = Inr els))"
  shows "loop_body L tree (k, c) st =
           Inr (st\<lparr>results := AList.update k
                    (if read_multi c then PyList (process_elements els)
                     else (case process_elements els of [] \<Rightarrow> PyNone | s # rest \<Rightarrow> PyStr s))
                    (results st),
                  queries := queries st @
                    [if read_type c = ''css'' then CssSelect sel else XPath sel]\<rparr>) \<and>
         (\<forall>st'. extract_fields L tree items = Inr st' \<longrightarrow>
            map_of (results st') k =
              Some (if read_multi c then PyList (process_elements els)
                    else (case process_elements els of [] \<Rightarrow> PyNone | s # rest \<Rightarrow> PyStr s)))"
proof -
  note field = field_selected [OF assms(3-5)]
  have "loop_body L tree (k, c) st =
           Inr (st\<lparr>results := AList.update k
                    (if read_multi c then PyList (process_elements els)
                     else (case process_elements els of [] \<Rightarrow> PyNone | s # rest \<Rightarrow> PyStr s))
                    (results st),
                  queries := queries st @
                    [if read_type c = ''css'' then CssSelect sel else XPath sel]\<rparr>)"
    by (simp add: loop_body_eq field)
  moreover have "map_of (results st') k =
              Some (if read_multi c then PyList (process_elements els)
                    else (case process_elements els of [] \<Rightarrow> PyNone | s # rest \<Rightarrow> PyStr s))"
    if "extract_fields L tree items = Inr st'" for st'
    using extract_fields_lookup [OF that assms(1,2)] field(2) by simp
  ultimately show ?thesis by blast
qed

theorem cardinality_resolution_witness:
  "extract_fields demo_lxml demo_page demo_list =
     Inr \<lparr>results = [(''first'', PyStr ''A''), (''all'', PyList [''A'', ''B'', ''A'']),
                     (''none'', PyNone)],
          queries = [CssSelect ''li'', CssSelect ''li'', XPath ''//p'']\<rparr>"
  using
    cardinality_resolution [of demo_list "''first''"
      "\<lparr>get_selector = Some ''li'', get_type = Some ''css'', get_multi = Some False\<rparr>"
      "''li''" demo_lxml demo_page "[Element ''A'', Element [], Element '' B '', Element ''A'']"
      "\<lparr>results = [], queries = []\<rparr>"]
    cardinality_resolution [of demo_list "''all''"
      "\<lparr>get_selector = Some ''li'', get_type = Some ''CSS'', get_multi = Some True\<rparr>"
      "''li''" demo_lxml demo_page "[Element ''A'', Element [], Element '' B '', Element ''A'']"
      "\<lparr>results = [], queries = []\<rparr>"]
    cardinality_resolution [of demo_list "''none''"
      "\<lparr>get_selector = Some ''//p'', get_type = Some ''xpath'', get_multi = None\<rparr>"
      "''//p''" demo_lxml demo_page "[]" "\<lparr>results = [], queries = []\<rparr>"]
  by (simp add: demo_defs)

text \<open>
  C5, normalisation asymmetry. Wherever it stands in \<open>extracted_elements\<close>, a string
  contributes exactly its stripped value, also when that is empty; an element contributes
  its stripped text content when that is not empty, and nothing otherwise.
\<close>

theorem normalization_asymmetry:
  "process_elements (before @ Str s # after) =
     process_elements before @ strip s # process_elements after \<and>
   process_elements (before @ Element t # after) =
     (if strip t = [] then process_elements before @ process_elements after
      else process_elements before @ strip t # process_elements after)"
  by (simp add: process_elements_def fold_append_match Let_def)

theorem normalization_asymmetry_witness:
  "process_elements [Str '' '', Element '' B ''] = [[], ''B''] \<and>
   process_elements [Element [], Element '' B ''] = [''B'']"
  using normalization_asymmetry [of "[]" "'' ''" "[Element '' B '']" "[]"]
    normalization_asymmetry [of "[]" "'' ''" "[]" "'' B ''"]
  by (simp add: demo_defs)

text \<open>
  C6, empty-selector short circuit. For a data point whose selector is absent or empty,
  the body of the loop returns and only assigns the empty form: the log of calls to the
  query engine is unchanged, and neither the engine nor the tree occurs in the outcome.
  Whenever the loop returns, the data point holds its empty form.
\<close>

theorem empty_selector_short_circuit:
  assumes "get_selector c = None \<or> get_selector c = Some []"
    and "distinct (map fst items)" and "(k, c) \<in> set items"
  shows "loop_body L tree (k, c) st =
           Inr (st\<lparr>results := AList.update k (empty_form (read_multi c)) (results st)\<rparr>) \<and>
         (\<forall>st'. extract_fields L tree items = Inr st' \<longrightarrow>
            map_of (results st') k = Some (empty_form (read_multi c)))"
proof -
  note field = field_no_selector [OF assms(1), of L tree]
  have "loop_body L tree (k, c) st =
           Inr (st\<lparr>results := AList.update k (empty_form (read_multi c)) (results st)\<rparr>)"
    by (simp add: loop_body_eq field)
  moreover have "map_of (results st') k = Some (empty_form (read_multi c))"
    if "extract_fields L tree items = Inr st'" for st'
    using extract_fields_lookup [OF that assms(2,3)] field(2) by simp
  ultimately show ?thesis by blast
qed

theorem empty_selector_short_circuit_witness:
  "extract_fields demo_lxml demo_page demo_blank =
     Inr \<lparr>results = [(''absent'', PyList []), (''empty'', PyNone)], queries = []\<rparr>"
  using
    empty_selector_short_circuit [of
      "\<lparr>get_selector = None, get_type = Some ''css'', get_multi = Some True\<rparr>"
      demo_blank "''absent''" demo_lxml demo_page "\<lparr>results = [], queries = []\<rparr>"]
    empty_selector_short_circuit [of
      "\<lparr>get_selector = Some [], get_type = Some ''xpath'', get_multi = None\<rparr>"
      demo_blank "''empty''" demo_lxml demo_page
      "\<lparr>results = [(''absent'', PyList [])], queries = []\<rparr>"]
  by (simp add: demo_defs)

text \<open>
  C7, a selector language other than css and xpath. The type \<open>'CSS'\<close> is a value other
  than \<open>'css'\<close> and \<open>'xpath'\<close>, yet its selector is evaluated as a CSS selector, and the
  result differs from that of the same rule with an empty selector.
\<close>

theorem uppercase_type_is_evaluated:
  "''CSS'' \<noteq> ''css'' \<and> ''CSS'' \<noteq> ''xpath'' \<and>
   extract_fields demo_lxml demo_page
     [(''title'', \<lparr>get_selector = Some ''h1'', get_type = Some ''CSS'', get_multi = None\<rparr>)] =
     Inr \<lparr>results = [(''title'', PyStr ''Widget'')], queries = [CssSelect ''h1'']\<rparr> \<and>
   extract_fields demo_lxml demo_page
     [(''title'', \<lparr>get_selector = Some [], get_type = Some ''CSS'', get_multi = None\<rparr>)] =
     Inr \<lparr>results = [(''title'', PyNone)], queries = []\<rparr>"
  by (simp add: demo_defs)

text \<open>
  C7 as the code has it. When the type in lower case is neither \<open>'css'\<close> nor \<open>'xpath'\<close>, the
  body of the loop does what it does for the same rule without a selector: it returns,
  assigns the empty form and calls no query engine.
\<close>

theorem unsupported_type_like_empty_selector:
  assumes "read_type c \<noteq> ''css''" and "read_type c \<noteq> ''xpath''"
  shows "loop_body L tree (k, c) st = loop_body L tree (k, c\<lparr>get_selector := None\<rparr>) st \<and>
         loop_body L tree (k, c) st =
           Inr (st\<lparr>results := AList.update k (empty_form (read_multi c)) (results st)\<rparr>)"
proof -
  have "read_type (c\<lparr>get_selector := None\<rparr>) = read_type c"
    and "read_multi (c\<lparr>get_selector := None\<rparr>) = read_multi c"
    by (simp_all add: read_type_def read_multi_def)
  then show ?thesis
    using field_unsupported [OF assms, of L tree]
      field_no_selector [of "c\<lparr>get_selector := None\<rparr>" L tree]
    by (simp add: loop_body_eq)
qed

theorem unsupported_type_like_empty_selector_witness:
  "extract_fields demo_lxml demo_page
     [(''title'', \<lparr>get_selector = Some ''h1'', get_type = Some ''json'',
                   get_multi = Some True\<rparr>)] =
     Inr \<lparr>results = [(''title'', PyList [])], queries = []\<rparr>"
  using unsupported_type_like_empty_selector [of
      "\<lparr>get_selector = Some ''h1'', get_type = Some ''json'', get_multi = Some True\<rparr>"
      demo_lxml demo_page "''title''" "\<lparr>results = [], queries = []\<rparr>"]
  by (simp add: demo_defs)

text \<open>
  C8, order preservation without deduplication. An entry of \<open>extracted_elements\<close> that is
  neither a string nor has \<open>text_content\<close> is dropped too, by the guard of line 62: it is
  not an element with empty text. The duplicate beside it is kept.
\<close>

theorem other_match_dropped:
  "process_elements [Element ''A'', Other, Element ''A''] = [''A'', ''A'']"
  by (simp add: demo_defs)

text \<open>
  C8 as the code has it. The normalised list is the list of matches, in the order of the
  query engine and with its repetitions, from which exactly the elements with empty
  stripped text and the entries that are neither strings nor elements are left out, each
  remaining entry stripped.
\<close>

theorem order_preserved:
  "process_elements els = map trimmed (filter (\<lambda>el. \<not> dropped el) els)"
proof -
  have "append_match el [] = (if dropped el then [] else [trimmed el])" for el
    by (cases el) (simp_all add: Let_def)
  then have "concat (map (\<lambda>el. append_match el []) els) =
             map trimmed (filter (\<lambda>el. \<not> dropped el) els)"
    by (induction els) simp_all
  then show ?thesis
    by (simp add: process_elements_def fold_append_match)
qed

theorem order_preserved_witness:
  "process_elements [Element '' B '', Element ''A'', Element [], Str '' '', Other, Element ''A''] =
     [''B'', ''A'', [], ''A'']"
  using order_preserved
    [of "[Element '' B '', Element ''A'', Element [], Str '' '', Other, Element ''A'']"]
  by (simp add: strip_demo)

text \<open>
  C10, the dispatch on the type ignores case. Two types with the same lower-case form are
  dispatched alike, whatever the rule, the tree and the state: \<open>'CSS'\<close> and \<open>'Css'\<close> go
  the way of \<open>'css'\<close>, \<open>'XPATH'\<close> the way of \<open>'xpath'\<close>, and their selectors are evaluated.
\<close>

theorem type_case_insensitive:
  assumes "lower t = lower t'"
  shows "loop_body L tree (k, c\<lparr>get_type := Some t\<rparr>) st =
         loop_body L tree (k, c\<lparr>get_type := Some t'\<rparr>) st"
  using assms by (simp add: loop_body_def read_type_def read_multi_def)

theorem type_case_insensitive_witness:
  "lower ''CSS'' = lower ''css'' \<and> lower ''Css'' = lower ''css'' \<and>
   lower ''XPATH'' = lower ''xpath'' \<and>
   loop_body demo_lxml demo_page
     (''title'', \<lparr>get_selector = Some ''h1'', get_type = Some ''CSS'', get_multi = None\<rparr>)
     \<lparr>results = [], queries = []\<rparr> =
   Inr \<lparr>results = [(''title'', PyStr ''Widget'')], queries = [CssSelect ''h1'']\<rparr> \<and>
   loop_body demo_lxml demo_page
     (''src'', \<lparr>get_selector = Some ''//img/@src'', get_type = Some ''XPATH'',
                get_multi = None\<rparr>)
     \<lparr>results = [], queries = []\<rparr> =
   Inr \<lparr>results = [(''src'', PyStr ''/a.png'')], queries = [XPath ''//img/@src'']\<rparr>"
  using type_case_insensitive [of "''CSS''" "''css''" demo_lxml demo_page "''title''"
      "\<lparr>get_selector = Some ''h1'', get_type = None, get_multi = None\<rparr>"
      "\<lparr>results = [], queries = []\<rparr>"]
    type_case_insensitive [of "''XPATH''" "''xpath''" demo_lxml demo_page "''src''"
      "\<lparr>get_selector = Some ''//img/@src'', get_type = None, get_multi = None\<rparr>"
      "\<lparr>results = [], queries = []\<rparr>"]
  by (simp add: demo_defs)

end
